theory Spec2Isabelle
  imports Main "HOL-Library.Word" "HOL-Library.List_Lexorder" "HOL-Library.Multiset"
begin

section \<open>Strings of the host language\<close>

text \<open>
  A JavaScript string is a finite sequence of 16-bit code units. Equality, the relational
  operators and regular expressions without the \<^verbatim>\<open>u\<close> flag all work on code units, so
  the model keeps them: a string is a list of 16-bit words. \<open>js\<close> embeds an ASCII literal,
  \<open>line\<close> an ASCII literal followed by a line feed; text outside ASCII is written as its
  code units.
\<close>

type_synonym code_unit = "16 word"
type_synonym jsstring = "code_unit list"

definition js :: "string \<Rightarrow> jsstring" where
  "js s = map (\<lambda>c. of_nat (of_char c)) s"

definition line :: "string \<Rightarrow> jsstring" where
  "line s = js s @ [0x0A]"

text \<open>
  The relational operators on two strings (ECMAScript \<^verbatim>\<open>IsLessThan\<close>): a proper prefix is
  smaller, otherwise the first position where the code units differ decides.
  \<^verbatim>\<open>a >= b\<close> is the negation of \<^verbatim>\<open>a < b\<close> and \<^verbatim>\<open>a <= b\<close> the negation of \<^verbatim>\<open>b < a\<close>.
\<close>

fun js_lt :: "jsstring \<Rightarrow> jsstring \<Rightarrow> bool" where
  "js_lt [] [] = False"
| "js_lt [] (y # ys) = True"
| "js_lt (x # xs) [] = False"
| "js_lt (x # xs) (y # ys) = (if x = y then js_lt xs ys else x < y)"

definition js_ge :: "jsstring \<Rightarrow> jsstring \<Rightarrow> bool" where
  "js_ge a b = (\<not> js_lt a b)"

definition js_le :: "jsstring \<Rightarrow> jsstring \<Rightarrow> bool" where
  "js_le a b = (\<not> js_lt b a)"

section \<open>Date window resolver\<close>

text \<open>\<^verbatim>\<open>const DEFAULT_EARLIEST_DATE = "2025-12-25";\<close>\<close>

definition DEFAULT_EARLIEST_DATE :: jsstring where
  "DEFAULT_EARLIEST_DATE = js ''2025-12-25''"

text \<open>
  The pattern \<^verbatim>\<open>/^\d{4}-\d{2}-\d{2}$/\<close> is a sequence of single-character atoms between the
  two anchors. Without flags, \<^verbatim>\<open>\d\<close> is the ASCII digits, \<^verbatim>\<open>^\<close> is the start of the
  input and \<^verbatim>\<open>$\<close> its end, so \<^verbatim>\<open>test\<close> succeeds exactly when the input has one code unit
  per atom and each code unit matches its atom.
\<close>

datatype atom = Digit | Lit code_unit

fun atom_matches :: "atom \<Rightarrow> code_unit \<Rightarrow> bool" where
  "atom_matches Digit c = (0x30 \<le> c \<and> c \<le> 0x39)"
| "atom_matches (Lit k) c = (c = k)"

definition date_pattern :: "atom list" where
  "date_pattern =
     [Digit, Digit, Digit, Digit, Lit 0x2D, Digit, Digit, Lit 0x2D, Digit, Digit]"

definition isValidDateString :: "jsstring \<Rightarrow> bool" where
  "isValidDateString v = list_all2 atom_matches date_pattern v"

text \<open>
  \<^verbatim>\<open>resolveDate(input: string | undefined, fallback: string)\<close>: \<open>None\<close> is
  \<^verbatim>\<open>undefined\<close>; \<^verbatim>\<open>!input\<close> holds for \<^verbatim>\<open>undefined\<close> and for the empty string.
\<close>

definition resolveDate :: "jsstring option \<Rightarrow> jsstring \<Rightarrow> jsstring" where
  "resolveDate input fallback =
     (case input of
        None \<Rightarrow> fallback
      | Some s \<Rightarrow> if s = [] \<or> \<not> isValidDateString s then fallback else s)"

definition validateDateRange :: "jsstring \<Rightarrow> jsstring \<Rightarrow> jsstring \<Rightarrow> bool" where
  "validateDateRange d minDate maxDate = (js_ge d minDate \<and> js_le d maxDate)"

section \<open>Host functions\<close>

text \<open>
  Two functions of the platform are parameters of the model: \<open>toISOString\<close> is
  \<^verbatim>\<open>Date.prototype.toISOString\<close> on a time value in milliseconds since the epoch, and
  \<open>marked_parse\<close> is the markdown converter \<^verbatim>\<open>marked.parse\<close>.
\<close>

record host =
  toISOString :: "int \<Rightarrow> jsstring"
  marked_parse :: "jsstring \<Rightarrow> jsstring"

text \<open>
  \<^verbatim>\<open>formatJstDate(date)\<close>: the argument is the time value of \<^verbatim>\<open>date\<close>;
  \<^verbatim>\<open>slice(0, 10)\<close> keeps the first ten code units.
\<close>

definition formatJstDate :: "host \<Rightarrow> int \<Rightarrow> jsstring" where
  "formatJstDate h t = take 10 (toISOString h (t + 9 * 60 * 60 * 1000))"

section \<open>Entry store accessor\<close>

text \<open>
  A row of the table \<^verbatim>\<open>trend_entries\<close>; the columns \<^verbatim>\<open>id\<close> and \<^verbatim>\<open>date\<close> are the
  fields \<open>entry_id\<close> and \<open>entry_date\<close>. The database is its rows, in insertion order,
  together with the bound parameter of every statement it has run, oldest first.
\<close>

record entry =
  entry_id :: int
  entry_date :: jsstring
  slot :: int
  raw_response :: jsstring
  fetched_at :: jsstring

record D1Database =
  trend_entries :: "entry list"
  statements :: "jsstring list"

text \<open>
  \<^verbatim>\<open>SELECT id, date, slot, raw_response, fetched_at FROM trend_entries
  WHERE date = ? ORDER BY slot ASC\<close>
\<close>

definition select_by_date :: "entry list \<Rightarrow> jsstring \<Rightarrow> entry list" where
  "select_by_date rows d = sort_key slot (filter (\<lambda>r. entry_date r = d) rows)"

text \<open>
  \<^verbatim>\<open>db.prepare(...).bind(date).all()\<close> runs the statement and answers with an object
  whose \<^verbatim>\<open>results\<close> field the caller reads as possibly absent.
\<close>

definition d1_all :: "D1Database \<Rightarrow> jsstring \<Rightarrow> entry list option \<times> D1Database" where
  "d1_all db d =
     (Some (select_by_date (trend_entries db) d), db\<lparr>statements := statements db @ [d]\<rparr>)"

definition fetchEntriesForDate :: "D1Database \<Rightarrow> jsstring \<Rightarrow> entry list \<times> D1Database" where
  "fetchEntriesForDate db d =
     (case d1_all db d of
        (results, db') \<Rightarrow> (case results of None \<Rightarrow> [] | Some rs \<Rightarrow> rs, db'))"

section \<open>The html template tag\<close>

text \<open>
  A value interpolated into an \<^verbatim>\<open>html\<close> template is a plain string, a string already
  marked as HTML (the result of \<^verbatim>\<open>html\<close> or \<^verbatim>\<open>raw\<close>), or an array of such values.
  The tag escapes plain strings (\<^verbatim>\<open>&\<close>, \<^verbatim>\<open><\<close>, \<^verbatim>\<open>>\<close>, the double and the single
  quote), inserts marked strings as they are, flattens arrays, and joins the literal
  pieces of the template with the interpolated texts.
\<close>

definition escape_unit :: "code_unit \<Rightarrow> jsstring" where
  \<open>escape_unit c =
     (if c = 0x26 then js ''&amp;''
      else if c = 0x3C then js ''&lt;''
      else if c = 0x3E then js ''&gt;''
      else if c = 0x22 then js ''&quot;''
      else if c = 0x27 then js ''&#39;''
      else [c])\<close>

definition escape :: "jsstring \<Rightarrow> jsstring" where
  "escape s = concat (map escape_unit s)"

datatype hvalue = Str jsstring | Escaped jsstring | Arr "hvalue list"

fun interp :: "hvalue \<Rightarrow> jsstring" where
  "interp (Str s) = escape s"
| "interp (Escaped s) = s"
| "interp (Arr vs) = concat (map interp vs)"

fun html :: "jsstring list \<Rightarrow> hvalue list \<Rightarrow> jsstring" where
  "html [] vs = []"
| "html [s] vs = s"
| "html (s # s' # ss) [] = s @ html (s' # ss) []"
| "html (s # s' # ss) (v # vs) = s @ interp v @ html (s' # ss) vs"

section \<open>Markdown renderer and entry list view\<close>

text \<open>The literal pieces of the templates of \<^verbatim>\<open>renderEntryHtml\<close>, \<^verbatim>\<open>renderEntries\<close>
  and the entry handler.\<close>

definition article_head :: jsstring where
  \<open>article_head =
     line [] @
     line ''    <article class="mb-4">'' @
     js ''      <div class="d-flex flex-wrap justify-content-between align-items-center mb'' @
     line ''-2">'' @
     js ''        <h2 class="h5 mb-0">''\<close>

definition article_time :: jsstring where
  \<open>article_time =
     line ''</h2>'' @
     js ''        <span class="text-muted small">'' @
     [0x53D6, 0x5F97, 0x6642, 0x523B] @
     js '' (UTC): ''\<close>

definition article_body :: jsstring where
  \<open>article_body =
     line ''</span>'' @
     line ''      </div>'' @
     js ''      <div class="markdown-body">''\<close>

definition article_foot :: jsstring where
  \<open>article_foot =
     line ''</div>'' @
     line ''    </article>'' @
     js ''  ''\<close>

definition no_data_html :: jsstring where
  \<open>no_data_html =
     js ''<p class="text-muted">'' @
     [0x3053, 0x306E, 0x65E5, 0x4ED8, 0x306E, 0x30C7, 0x30FC, 0x30BF, 0x306F, 0x898B,
      0x3064, 0x304B, 0x308A, 0x307E, 0x305B, 0x3093, 0x3067, 0x3057, 0x305F, 0x3002] @
     js ''</p>''\<close>

definition out_of_range_html :: jsstring where
  \<open>out_of_range_html =
     js ''<p class="text-danger">'' @
     [0x9078, 0x629E, 0x3067, 0x304D, 0x308B, 0x65E5, 0x4ED8, 0x306E, 0x7BC4, 0x56F2,
      0x5916, 0x3067, 0x3059, 0x3002] @
     js ''</p>''\<close>


text \<open>
  \<^verbatim>\<open>renderEntryHtml(entry)\<close>: the label and the timestamp are plain strings, the
  converted markdown is wrapped in \<^verbatim>\<open>raw\<close>.
\<close>

definition renderEntryHtml :: "host \<Rightarrow> entry \<Rightarrow> jsstring" where
  "renderEntryHtml h e =
     (let slotLabel = (if slot e = 0 then js ''00:00 '' @ [0x53D6, 0x5F97]
                       else js ''12:00 '' @ [0x53D6, 0x5F97]);
          content = marked_parse h (raw_response e)
      in html [article_head, article_time, article_body, article_foot]
              [Str slotLabel, Str (fetched_at e), Escaped content])"

definition renderEntries :: "host \<Rightarrow> entry list \<Rightarrow> jsstring" where
  "renderEntries h entries =
     (if length entries = 0 then html [no_data_html] []
      else html [[], []] [Arr (map (\<lambda>e. Escaped (renderEntryHtml h e)) entries)])"

definition renderEntriesPartial :: "host \<Rightarrow> entry list \<Rightarrow> jsstring" where
  "renderEntriesPartial h entries = html [[], []] [Escaped (renderEntries h entries)]"

section \<open>Page composer\<close>

text \<open>
  \<^verbatim>\<open>renderPage({date, entries, minDate, maxDate})\<close>, with the fields of its argument
  as separate parameters.
\<close>

text \<open>The literal pieces of the page template.\<close>

definition page_template :: "jsstring list" where
  \<open>page_template =
     [line [] @
      line ''  <!doctype html>'' @
      line ''  <html lang="ja">'' @
      line ''    <head>'' @
      line ''      <meta charset="utf-8" />'' @
      line ''      <meta name="viewport" content="width=device-width, initial-scale=1" />'' @
      line ''      <title>Tech Trend Blog</title>'' @
      line ''      <link'' @
      js ''        href="https://cdn.jsdelivr.net/npm/bootstrap@5.3.3/dist/css/bootstrap.mi'' @
      line ''n.css"'' @
      line ''        rel="stylesheet"'' @
      line ''        crossorigin="anonymous"'' @
      line ''      />'' @
      line ''      <style>'' @
      line ''        body {'' @
      line ''          background: #f8f9fa;'' @
      line ''        }'' @
      line ''        .blog-card {'' @
      line ''          background: #ffffff;'' @
      line ''          border-radius: 1rem;'' @
      line ''          box-shadow: 0 12px 32px rgba(15, 23, 42, 0.08);'' @
      line ''        }'' @
      line ''        .markdown-body h1,'' @
      line ''        .markdown-body h2,'' @
      line ''        .markdown-body h3 {'' @
      line ''          margin-top: 1.5rem;'' @
      line ''        }'' @
      line ''        .markdown-body pre {'' @
      line ''          background: #0f172a;'' @
      line ''          color: #e2e8f0;'' @
      line ''          padding: 1rem;'' @
      line ''          border-radius: 0.75rem;'' @
      line ''        }'' @
      line ''        .markdown-body code {'' @
      line ''          background: #e2e8f0;'' @
      line ''          padding: 0.1rem 0.3rem;'' @
      line ''          border-radius: 0.25rem;'' @
      line ''        }'' @
      line ''      </style>'' @
      line ''    </head>'' @
      line ''    <body class="py-4">'' @
      line ''      <div class="container">'' @
      line ''        <header class="mb-4 text-center">'' @
      line ''          <h1 class="display-6 fw-bold">Tech Trend Blog</h1>'' @
      line ''          <p class="text-muted">'' @
      js ''            xAI '' @
      [0x304B, 0x3089, 0x53D6, 0x5F97, 0x3057, 0x305F, 0x60C5, 0x5831, 0x3092, 0x307E,
       0x3068, 0x3081, 0x3066, 0x3044, 0x307E, 0x3059, 0x3002, 0x5185, 0x5BB9, 0x306B,
       0x8AA4, 0x308A, 0x304C, 0x3042, 0x308B, 0x53EF, 0x80FD, 0x6027, 0x304C, 0x3042,
       0x308A, 0x307E, 0x3059, 0x3002] @
      line [] @
      line ''          </p>'' @
      line ''        </header>'' @
      line [] @
      line ''        <section class="blog-card p-4 mb-4">'' @
      line ''          <div class="row g-3 align-items-end">'' @
      line ''            <div class="col-md-6">'' @
      js ''              <label class="form-label fw-semibold">'' @
      [0x65E5, 0x4ED8, 0x3092, 0x9078, 0x629E] @
      line ''</label>'' @
      line ''              <input'' @
      line ''                class="form-control"'' @
      line ''                type="date"'' @
      line ''                name="date"'' @
      js ''                value="'',
      line ''"'' @
      js ''                min="'',
      line ''"'' @
      js ''                max="'',
      line ''"'' @
      line ''                x-data'' @
      js ''                @change="$dispatch('' @
      [0x0027] @
      js ''date-change'' @
      [0x0027] @
      line '', { value: $event.target.value })"'' @
      line ''              />'' @
      line ''            </div>'' @
      line ''            <div class="col-md-6 text-md-end">'' @
      line ''              <button'' @
      line ''                class="btn btn-primary"'' @
      line ''                hx-get="/api/entry"'' @
      js ''                hx-include="[name='' @
      [0x0027] @
      js ''date'' @
      [0x0027] @
      line '']"'' @
      line ''                hx-target="#entry-content"'' @
      line ''                hx-swap="innerHTML"'' @
      line ''              >'' @
      js ''                '' @
      [0x8A18, 0x4E8B, 0x3092, 0x8868, 0x793A] @
      line [] @
      line ''              </button>'' @
      line ''            </div>'' @
      line ''          </div>'' @
      line ''          <p class="small text-muted mt-3 mb-0">'' @
      js ''            '',
      js '' '' @
      [0x304B, 0x3089] @
      js '' '',
      js '' '' @
      [0x307E, 0x3067, 0x9061, 0x308C, 0x307E, 0x3059, 0x3002] @
      line [] @
      line ''          </p>'' @
      line ''        </section>'' @
      line [] @
      line ''        <section class="blog-card p-4" id="entry-content">'' @
      js ''          '',
      line [] @
      line ''        </section>'' @
      line [] @
      line ''        <footer class="text-center mt-4 text-muted small">'' @
      js ''          Tech Trend Blog '' @
      [0x00B7] @
      line '' Cloudflare Pages'' @
      line ''        </footer>'' @
      line ''      </div>'' @
      line ''      <script src="https://cdn.jsdelivr.net/npm/htmx.org@1.9.12"></script>'' @
      js ''      <script src="https://cdn.jsdelivr.net/npm/alpinejs@3.x.x/dist/cdn.min.js" '' @
      line ''defer></script>'' @
      line ''      <script>'' @
      line ''        document.addEventListener("date-change", (event) => {'' @
      js ''          const dateInput = document.querySelector("input[name='' @
      [0x0027] @
      js ''date'' @
      [0x0027] @
      line '']");'' @
      line ''          if (!dateInput) return;'' @
      line ''          dateInput.value = event.detail.value;'' @
      line ''        });'' @
      line ''      </script>'' @
      line ''    </body>'' @
      line ''  </html>'']\<close>

definition renderPage :: "host \<Rightarrow> jsstring \<Rightarrow> entry list \<Rightarrow> jsstring \<Rightarrow> jsstring \<Rightarrow> jsstring" where
  "renderPage h date entries minDate maxDate =
     html page_template
       [Str date, Str minDate, Str maxDate, Str minDate, Str maxDate,
        Escaped (renderEntries h entries)]"

section \<open>Request dispatcher\<close>

text \<open>
  The context of a request: the bindings of the environment, the \<^verbatim>\<open>date\<close> query
  parameter and the \<^verbatim>\<open>date\<close> path parameter (\<open>None\<close> when absent), and the time value
  that \<^verbatim>\<open>new Date()\<close> reads. A handler returns its response and the database after it.
  \<^verbatim>\<open>c.html\<close> answers with a text body, \<^verbatim>\<open>c.json\<close> with an object, kept as the list of
  its keys and values.
\<close>

record Bindings =
  DB :: D1Database
  EARLIEST_DATE :: "jsstring option"

record request =
  query_date :: "jsstring option"
  param_date :: "jsstring option"

datatype response = Html jsstring | Json "(jsstring \<times> jsstring) list"

text \<open>\<^verbatim>\<open>c.env.EARLIEST_DATE ?? DEFAULT_EARLIEST_DATE\<close>\<close>

definition earliest :: "Bindings \<Rightarrow> jsstring" where
  "earliest env = (case EARLIEST_DATE env of None \<Rightarrow> DEFAULT_EARLIEST_DATE | Some v \<Rightarrow> v)"

text \<open>\<^verbatim>\<open>app.get("/", ...)\<close>\<close>

definition get_root :: "host \<Rightarrow> Bindings \<Rightarrow> request \<Rightarrow> int \<Rightarrow> response \<times> D1Database" where
  "get_root h env req now =
     (let minDate = earliest env;
          maxDate = formatJstDate h now;
          date = resolveDate (query_date req) maxDate
      in case (if validateDateRange date minDate maxDate
               then fetchEntriesForDate (DB env) date
               else ([], DB env)) of
           (entries, db') \<Rightarrow> (Html (renderPage h date entries minDate maxDate), db'))"

text \<open>\<^verbatim>\<open>app.get("/date/:date", ...)\<close>\<close>

definition get_date :: "host \<Rightarrow> Bindings \<Rightarrow> request \<Rightarrow> int \<Rightarrow> response \<times> D1Database" where
  "get_date h env req now =
     (let minDate = earliest env;
          maxDate = formatJstDate h now;
          date = resolveDate (param_date req) maxDate
      in case (if validateDateRange date minDate maxDate
               then fetchEntriesForDate (DB env) date
               else ([], DB env)) of
           (entries, db') \<Rightarrow> (Html (renderPage h date entries minDate maxDate), db'))"

text \<open>\<^verbatim>\<open>app.get("/api/entry", ...)\<close> of the first route set\<close>

definition get_api_entry :: "host \<Rightarrow> Bindings \<Rightarrow> request \<Rightarrow> int \<Rightarrow> response \<times> D1Database" where
  "get_api_entry h env req now =
     (let minDate = earliest env;
          maxDate = formatJstDate h now;
          date = resolveDate (query_date req) maxDate
      in if \<not> validateDateRange date minDate maxDate
         then (Html (html [out_of_range_html] []), DB env)
         else case fetchEntriesForDate (DB env) date of
                (entries, db') \<Rightarrow> (Html (renderEntriesPartial h entries), db'))"

text \<open>\<^verbatim>\<open>app.get("/api/meta", ...)\<close>; the handler does not touch the database.\<close>

definition get_api_meta :: "host \<Rightarrow> Bindings \<Rightarrow> request \<Rightarrow> int \<Rightarrow> response" where
  "get_api_meta h env req now =
     (let minDate = earliest env;
          maxDate = formatJstDate h now;
          defaultDate = resolveDate (query_date req) maxDate
      in Json [(js ''minDate'', minDate), (js ''maxDate'', maxDate),
               (js ''defaultDate'', defaultDate)])"

text \<open>\<^verbatim>\<open>app.get("/api/entry", ...)\<close> of the second route set\<close>

definition get_api_entry_legacy ::
    "host \<Rightarrow> Bindings \<Rightarrow> request \<Rightarrow> int \<Rightarrow> response \<times> D1Database" where
  "get_api_entry_legacy h env req now =
     (let minDate = earliest env;
          maxDate = formatJstDate h now;
          date = resolveDate (query_date req) maxDate
      in if \<not> validateDateRange date minDate maxDate
         then (Html (html [out_of_range_html] []), DB env)
         else case fetchEntriesForDate (DB env) date of
                (entries, db') \<Rightarrow> (Html (renderEntries h entries), db'))"

section \<open>Sample values\<close>

text \<open>
  A host whose clock is read at 2026-05-31T15:30:00Z, nine hours before
  2026-06-01T00:30:00Z, and whose markdown converter wraps its input in a paragraph;
  a store holding the two entries of 2026-05-31, the later slot inserted first.
\<close>

definition sample_now :: int where
  "sample_now = 1780241400000"

definition sample_host :: host where
  "sample_host =
     \<lparr>toISOString = (\<lambda>t. if t = 1780273800000 then js ''2026-06-01T00:30:00.000Z''
                          else js ''1970-01-01T00:00:00.000Z''),
      marked_parse = (\<lambda>s. js ''<p>'' @ s @ line ''</p>'')\<rparr>"

definition sample_morning :: entry where
  "sample_morning =
     \<lparr>entry_id = 7, entry_date = js ''2026-05-31'', slot = 0,
      raw_response = js ''first'', fetched_at = js ''2026-05-30T15:00:04Z''\<rparr>"

definition sample_noon :: entry where
  "sample_noon =
     \<lparr>entry_id = 5, entry_date = js ''2026-05-31'', slot = 1,
      raw_response = js ''second'', fetched_at = js ''2026-05-31T03:00:02Z''\<rparr>"

definition sample_db :: D1Database where
  "sample_db = \<lparr>trend_entries = [sample_noon, sample_morning], statements = []\<rparr>"

definition sample_env :: Bindings where
  "sample_env = \<lparr>DB = sample_db, EARLIEST_DATE = None\<rparr>"

definition sample_request :: "jsstring option \<Rightarrow> request" where
  "sample_request d = \<lparr>query_date = d, param_date = d\<rparr>"

section \<open>Properties of the date window resolver\<close>

lemma js_lt_iff_less: "js_lt a b \<longleftrightarrow> a < b"
  by (induction a b rule: js_lt.induct) auto

lemma isValidDateString_shape:
  "isValidDateString s \<longleftrightarrow>
     (\<exists>y1 y2 y3 y4 m1 m2 d1 d2.
        s = [y1, y2, y3, y4, 0x2D, m1, m2, 0x2D, d1, d2] \<and>
        list_all (atom_matches Digit) [y1, y2, y3, y4, m1, m2, d1, d2])"
  unfolding isValidDateString_def date_pattern_def
  by (auto simp: list_all2_Cons1)

lemma isValidDateString_not_empty: "\<not> isValidDateString []"
  by (simp add: isValidDateString_def date_pattern_def)

text \<open>
  Claim C2. A string that matches \<^verbatim>\<open>^\d{4}-\d{2}-\d{2}$\<close> is returned unchanged; every
  other string, the empty string and an absent input yield the fallback. The function
  is total: it has no failing branch.
\<close>

theorem resolveDate_matches_or_fallback:
  "(isValidDateString s \<longrightarrow> resolveDate (Some s) f = s) \<and>
   (\<not> isValidDateString s \<longrightarrow> resolveDate (Some s) f = f) \<and>
   resolveDate (Some []) f = f \<and>
   resolveDate None f = f"
  using isValidDateString_not_empty by (auto simp: resolveDate_def)

theorem resolveDate_matches_or_fallback_witness:
  "isValidDateString (js ''2025-12-25'') \<and>
   resolveDate (Some (js ''2025-12-25'')) (js ''2026-06-01'') = js ''2025-12-25'' \<and>
   \<not> isValidDateString (js ''2025-1-05'') \<and>
   resolveDate (Some (js ''2025-1-05'')) (js ''2026-06-01'') = js ''2026-06-01'' \<and>
   resolveDate (Some []) (js ''2026-06-01'') = js ''2026-06-01'' \<and>
   resolveDate None (js ''2026-06-01'') = js ''2026-06-01''"
proof -
  have ok: "isValidDateString (js ''2025-12-25'')"
    by (simp add: isValidDateString_def date_pattern_def js_def)
  have bad: "\<not> isValidDateString (js ''2025-1-05'')"
    by (simp add: isValidDateString_def date_pattern_def js_def)
  show ?thesis
    using ok bad
      resolveDate_matches_or_fallback [of "js ''2025-12-25''" "js ''2026-06-01''"]
      resolveDate_matches_or_fallback [of "js ''2025-1-05''" "js ''2026-06-01''"]
    by simp
qed

text \<open>
  Claim C3. The range check holds exactly when \<open>min \<le> d\<close> and \<open>d \<le> max\<close> in the
  lexicographic order on strings, both bounds included.
\<close>

theorem validateDateRange_iff_lexicographic:
  "validateDateRange d mn mx \<longleftrightarrow> mn \<le> d \<and> d \<le> mx"
  by (simp add: validateDateRange_def js_ge_def js_le_def js_lt_iff_less not_less)

theorem validateDateRange_iff_lexicographic_witness:
  "validateDateRange (js ''2025-12-25'') (js ''2025-12-25'') (js ''2026-01-01'') \<and>
   \<not> validateDateRange (js ''2025-12-24'') (js ''2025-12-25'') (js ''2026-01-01'')"
  using validateDateRange_iff_lexicographic
          [of "js ''2025-12-25''" "js ''2025-12-25''" "js ''2026-01-01''"]
        validateDateRange_iff_lexicographic
          [of "js ''2025-12-24''" "js ''2025-12-25''" "js ''2026-01-01''"]
  by (simp add: js_def)

lemma validateDateRange_le:
  "validateDateRange d mn mx \<longleftrightarrow> mn \<le> d \<and> d \<le> mx"
  by (simp add: validateDateRange_def js_ge_def js_le_def js_lt_iff_less not_less)

section \<open>Properties of the entry store accessor\<close>

lemma fetchEntriesForDate_eq:
  "fetchEntriesForDate db d =
     (select_by_date (trend_entries db) d, db\<lparr>statements := statements db @ [d]\<rparr>)"
  by (simp add: fetchEntriesForDate_def d1_all_def)

lemma mset_select_by_date:
  "mset (select_by_date rows d) = mset (filter (\<lambda>r. entry_date r = d) rows)"
  by (simp add: select_by_date_def)

lemma sorted_select_by_date: "sorted (map slot (select_by_date rows d))"
  by (simp add: select_by_date_def)

lemma select_by_date_no_match:
  "\<forall>r \<in> set rows. entry_date r \<noteq> d \<Longrightarrow> select_by_date rows d = []"
  by (simp add: select_by_date_def filter_empty_conv)

lemma sorted_pair_of_mset:
  assumes "mset rs = {#a, b#}" and "sorted (map slot rs)" and "slot a < slot b"
  shows "rs = [a, b]"
proof -
  from assms(1) have "size (mset rs) = 2" by simp
  then have "length rs = 2" by simp
  then obtain x y where rs: "rs = [x, y]"
    by (cases rs; cases "tl rs") auto
  with assms(1) have "(x = a \<and> y = b) \<or> (x = b \<and> y = a)"
    by (auto simp: add_eq_conv_ex)
  with assms(2,3) rs show ?thesis by auto
qed

section \<open>Properties of the renderer\<close>

lemma html_one_hole: "html [[], []] [v] = interp v"
  by simp

lemma interp_Arr_Escaped: "interp (Arr (map (\<lambda>e. Escaped (f e)) es)) = concat (map f es)"
  by (simp add: comp_def)

lemma renderEntriesPartial_eq: "renderEntriesPartial h es = renderEntries h es"
  by (simp add: renderEntriesPartial_def)

lemma escape_label_0000: "escape (js ''00:00 '' @ [0x53D6, 0x5F97]) = js ''00:00 '' @ [0x53D6, 0x5F97]"
  by (simp add: escape_def escape_unit_def js_def)

lemma escape_label_1200: "escape (js ''12:00 '' @ [0x53D6, 0x5F97]) = js ''12:00 '' @ [0x53D6, 0x5F97]"
  by (simp add: escape_def escape_unit_def js_def)

lemma renderEntryHtml_zero:
  "slot e = 0 \<Longrightarrow>
   renderEntryHtml h e =
     article_head @ (js ''00:00 '' @ [0x53D6, 0x5F97]) @ article_time @ escape (fetched_at e) @
     article_body @ marked_parse h (raw_response e) @ article_foot"
  by (simp add: renderEntryHtml_def escape_label_0000 del: append_assoc)

lemma renderEntryHtml_nonzero:
  "slot e \<noteq> 0 \<Longrightarrow>
   renderEntryHtml h e =
     article_head @ (js ''12:00 '' @ [0x53D6, 0x5F97]) @ article_time @ escape (fetched_at e) @
     article_body @ marked_parse h (raw_response e) @ article_foot"
  by (simp add: renderEntryHtml_def escape_label_1200 del: append_assoc)

section \<open>The sample values evaluated\<close>

lemma sample_maxDate: "formatJstDate sample_host sample_now = js ''2026-06-01''"
  by (simp add: formatJstDate_def sample_host_def sample_now_def js_def)

lemma sample_minDate: "earliest sample_env = js ''2025-12-25''"
  by (simp add: earliest_def sample_env_def DEFAULT_EARLIEST_DATE_def)

lemma sample_resolve_2099:
  "resolveDate (Some (js ''2099-01-01'')) (js ''2026-06-01'') = js ''2099-01-01''"
  by (simp add: resolveDate_def isValidDateString_def date_pattern_def js_def)

lemma sample_resolve_0531:
  "resolveDate (Some (js ''2026-05-31'')) (js ''2026-06-01'') = js ''2026-05-31''"
  by (simp add: resolveDate_def isValidDateString_def date_pattern_def js_def)

lemma sample_filter:
  "filter (\<lambda>r. entry_date r = js ''2026-05-31'') [sample_noon, sample_morning] =
     [sample_noon, sample_morning]"
  by (simp add: sample_noon_def sample_morning_def)

lemma sample_sort:
  "sort_key slot [sample_noon, sample_morning] = [sample_morning, sample_noon]"
  by (simp add: sample_noon_def sample_morning_def)

lemma sample_select:
  "select_by_date [sample_noon, sample_morning] (js ''2026-05-31'') =
     [sample_morning, sample_noon]"
  unfolding select_by_date_def sample_filter sample_sort ..

lemma sample_fetch:
  "fetchEntriesForDate sample_db (js ''2026-05-31'') =
     ([sample_morning, sample_noon], sample_db\<lparr>statements := [js ''2026-05-31'']\<rparr>)"
  by (simp add: fetchEntriesForDate_eq sample_db_def sample_select)

lemma sample_out_of_range:
  "\<not> (js ''2025-12-25'' \<le> js ''2099-01-01'' \<and> js ''2099-01-01'' \<le> js ''2026-06-01'')"
  by (simp add: js_def)

lemma sample_in_range:
  "js ''2025-12-25'' \<le> js ''2026-05-31'' \<and> js ''2026-05-31'' \<le> js ''2026-06-01''"
  by (simp add: js_def)

section \<open>Claims about the store accessor and the renderer\<close>

text \<open>
  Claim C5. The accessor returns exactly the stored rows whose date equals the argument,
  in ascending order of slot; two rows with slots 0 and 1 come back as [slot 0, slot 1]
  whatever their order in the table; when no row matches the result is the empty list.
  The read leaves the rows of the table as they were.
\<close>

theorem fetchEntriesForDate_matching_rows_by_slot:
  assumes "fetchEntriesForDate db d = (rs, db')"
  shows "mset rs = mset (filter (\<lambda>r. entry_date r = d) (trend_entries db)) \<and>
         sorted (map slot rs) \<and>
         (\<forall>a b. mset (filter (\<lambda>r. entry_date r = d) (trend_entries db)) = {#a, b#} \<and>
                slot a = 0 \<and> slot b = 1 \<longrightarrow> rs = [a, b]) \<and>
         ((\<forall>r \<in> set (trend_entries db). entry_date r \<noteq> d) \<longrightarrow> rs = []) \<and>
         trend_entries db' = trend_entries db"
proof -
  from assms have rs: "rs = select_by_date (trend_entries db) d"
    and db': "db' = db\<lparr>statements := statements db @ [d]\<rparr>"
    by (simp_all add: fetchEntriesForDate_eq)
  have m: "mset rs = mset (filter (\<lambda>r. entry_date r = d) (trend_entries db))"
    unfolding rs by (rule mset_select_by_date)
  have s: "sorted (map slot rs)"
    unfolding rs by (rule sorted_select_by_date)
  have two: "rs = [a, b]"
    if "mset (filter (\<lambda>r. entry_date r = d) (trend_entries db)) = {#a, b#}"
      and "slot a = 0" and "slot b = 1" for a b
    using that m s by (intro sorted_pair_of_mset) simp_all
  have none: "rs = []" if "\<forall>r \<in> set (trend_entries db). entry_date r \<noteq> d"
    unfolding rs using that by (rule select_by_date_no_match)
  show ?thesis
    using m s two none db' by simp
qed

theorem fetchEntriesForDate_matching_rows_by_slot_witness:
  "fetchEntriesForDate sample_db (js ''2026-05-31'') =
     ([sample_morning, sample_noon], sample_db\<lparr>statements := [js ''2026-05-31'']\<rparr>) \<and>
   mset [sample_morning, sample_noon] =
     mset (filter (\<lambda>r. entry_date r = js ''2026-05-31'') (trend_entries sample_db)) \<and>
   sorted (map slot [sample_morning, sample_noon]) \<and>
   fst (fetchEntriesForDate sample_db (js ''2026-06-01'')) = []"
proof -
  have none: "\<forall>r \<in> set (trend_entries sample_db). entry_date r \<noteq> js ''2026-06-01''"
    by (simp add: sample_db_def sample_noon_def sample_morning_def js_def)
  show ?thesis
    using none
      fetchEntriesForDate_matching_rows_by_slot [OF sample_fetch]
      fetchEntriesForDate_matching_rows_by_slot
        [of sample_db "js ''2026-06-01''" "fst (fetchEntriesForDate sample_db (js ''2026-06-01''))"
            "snd (fetchEntriesForDate sample_db (js ''2026-06-01''))"]
    by (simp add: sample_fetch)
qed

text \<open>
  Claim C6. For the empty sequence the list view is the fixed placeholder, in which no
  date occurs; for a non-empty sequence it is the concatenation of the rendered entries
  in the order of the input.
\<close>

theorem renderEntries_placeholder_or_concat:
  "renderEntries h [] = no_data_html \<and>
   (es \<noteq> [] \<longrightarrow> renderEntries h es = concat (map (renderEntryHtml h) es))"
  by (simp add: renderEntries_def comp_def)

theorem renderEntries_placeholder_or_concat_witness:
  "renderEntries sample_host [] = no_data_html \<and>
   renderEntries sample_host [sample_morning, sample_noon] =
     renderEntryHtml sample_host sample_morning @ renderEntryHtml sample_host sample_noon"
  using renderEntries_placeholder_or_concat [of sample_host "[sample_morning, sample_noon]"]
  by simp

text \<open>
  Claim C9. The label of the rendered entry is \<^verbatim>\<open>00:00\<close> followed by the two code units
  of the word for "collected" when the slot is 0, and \<^verbatim>\<open>12:00\<close> followed by the same
  word when the slot is 1; it stands between the opening and the closing tag of the
  heading, unescaped.
\<close>

theorem renderEntryHtml_slot_label:
  "(slot e = 0 \<longrightarrow>
      renderEntryHtml h e =
        article_head @ (js ''00:00 '' @ [0x53D6, 0x5F97]) @ article_time @
        escape (fetched_at e) @ article_body @ marked_parse h (raw_response e) @ article_foot) \<and>
   (slot e = 1 \<longrightarrow>
      renderEntryHtml h e =
        article_head @ (js ''12:00 '' @ [0x53D6, 0x5F97]) @ article_time @
        escape (fetched_at e) @ article_body @ marked_parse h (raw_response e) @ article_foot)"
  using renderEntryHtml_zero [of e h] renderEntryHtml_nonzero [of e h] by simp

theorem renderEntryHtml_slot_label_witness:
  "slot sample_morning = 0 \<and> slot sample_noon = 1 \<and>
   renderEntryHtml sample_host sample_morning =
     article_head @ (js ''00:00 '' @ [0x53D6, 0x5F97]) @ article_time @
     js ''2026-05-30T15:00:04Z'' @ article_body @ js ''<p>first'' @ line ''</p>'' @ article_foot \<and>
   renderEntryHtml sample_host sample_noon =
     article_head @ (js ''12:00 '' @ [0x53D6, 0x5F97]) @ article_time @
     js ''2026-05-31T03:00:02Z'' @ article_body @ js ''<p>second'' @ line ''</p>'' @ article_foot"
proof -
  have s0: "slot sample_morning = 0" and s1: "slot sample_noon = 1"
    by (simp_all add: sample_morning_def sample_noon_def)
  have e0: "escape (fetched_at sample_morning) = js ''2026-05-30T15:00:04Z''"
    and e1: "escape (fetched_at sample_noon) = js ''2026-05-31T03:00:02Z''"
    by (simp_all add: sample_morning_def sample_noon_def escape_def escape_unit_def js_def)
  have m0: "marked_parse sample_host (raw_response sample_morning) = js ''<p>first'' @ line ''</p>''"
    and m1: "marked_parse sample_host (raw_response sample_noon) = js ''<p>second'' @ line ''</p>''"
    by (simp_all add: sample_host_def sample_morning_def sample_noon_def js_def)
  show ?thesis
    using s0 s1
      renderEntryHtml_slot_label [of sample_morning sample_host]
      renderEntryHtml_slot_label [of sample_noon sample_host]
    by (simp add: e0 e1 m0 m1)
qed

text \<open>
  Claim C10. An entry whose slot is neither 0 nor 1 is rendered without failure and
  with the \<^verbatim>\<open>12:00\<close> label, to the same fragment as the entry with slot 1 and otherwise
  equal fields.
\<close>

theorem renderEntryHtml_other_slot_is_noon:
  assumes "slot e \<noteq> 0" and "slot e \<noteq> 1"
  shows "renderEntryHtml h e =
           article_head @ (js ''12:00 '' @ [0x53D6, 0x5F97]) @ article_time @
           escape (fetched_at e) @ article_body @ marked_parse h (raw_response e) @
           article_foot \<and>
         renderEntryHtml h e = renderEntryHtml h (e\<lparr>slot := 1\<rparr>)"
  using assms(1) by (simp add: renderEntryHtml_nonzero)

theorem renderEntryHtml_other_slot_is_noon_witness:
  "renderEntryHtml sample_host (sample_morning\<lparr>slot := 2\<rparr>) =
     renderEntryHtml sample_host (sample_morning\<lparr>slot := 1\<rparr>) \<and>
   renderEntryHtml sample_host (sample_morning\<lparr>slot := - 1\<rparr>) =
     renderEntryHtml sample_host (sample_morning\<lparr>slot := 1\<rparr>)"
proof -
  have a: "slot (sample_morning\<lparr>slot := 2\<rparr>) \<noteq> 0" "slot (sample_morning\<lparr>slot := 2\<rparr>) \<noteq> 1"
    and b: "slot (sample_morning\<lparr>slot := - 1\<rparr>) \<noteq> 0" "slot (sample_morning\<lparr>slot := - 1\<rparr>) \<noteq> 1"
    by simp_all
  show ?thesis
    using renderEntryHtml_other_slot_is_noon [OF a, of sample_host, THEN conjunct2]
      renderEntryHtml_other_slot_is_noon [OF b, of sample_host, THEN conjunct2]
    by simp
qed

section \<open>Claims about the request dispatcher\<close>

lemma api_entry_out_of_range:
  "\<not> validateDateRange (resolveDate (query_date req) (formatJstDate h now)) (earliest env)
       (formatJstDate h now) \<Longrightarrow>
   get_api_entry h env req now = (Html out_of_range_html, DB env) \<and>
   get_api_entry_legacy h env req now = (Html out_of_range_html, DB env)"
  by (simp add: get_api_entry_def get_api_entry_legacy_def)

lemma api_entry_in_range:
  "validateDateRange (resolveDate (query_date req) (formatJstDate h now)) (earliest env)
       (formatJstDate h now) \<Longrightarrow>
   fetchEntriesForDate (DB env) (resolveDate (query_date req) (formatJstDate h now)) =
     (entries, db') \<Longrightarrow>
   get_api_entry h env req now = (Html (renderEntries h entries), db') \<and>
   get_api_entry_legacy h env req now = (Html (renderEntries h entries), db')"
  by (simp add: get_api_entry_def get_api_entry_legacy_def renderEntriesPartial_eq)

text \<open>
  Claim C1. With the date resolved against \<open>maxDate\<close>: when it lies outside
  \<open>[minDate, maxDate]\<close>, either entry handler answers with the fixed warning fragment and
  leaves the database as it was, so no statement has run; otherwise it runs the one
  fetch for the resolved date and answers with the rendered entry list, which is the
  bare fragment of the list view.
\<close>

theorem api_entry_warning_or_fragment:
  assumes "minDate = earliest env"
    and "maxDate = formatJstDate h now"
    and "date = resolveDate (query_date req) maxDate"
    and "fetchEntriesForDate (DB env) date = (entries, db')"
  shows "(\<not> (minDate \<le> date \<and> date \<le> maxDate) \<longrightarrow>
            get_api_entry h env req now = (Html out_of_range_html, DB env) \<and>
            get_api_entry_legacy h env req now = (Html out_of_range_html, DB env)) \<and>
         (minDate \<le> date \<and> date \<le> maxDate \<longrightarrow>
            get_api_entry h env req now = (Html (renderEntries h entries), db') \<and>
            get_api_entry_legacy h env req now = (Html (renderEntries h entries), db') \<and>
            statements db' = statements (DB env) @ [date])"
proof (intro conjI impI)
  assume out: "\<not> (minDate \<le> date \<and> date \<le> maxDate)"
  then have "\<not> validateDateRange date minDate maxDate"
    by (simp add: validateDateRange_le)
  then have both: "get_api_entry h env req now = (Html out_of_range_html, DB env) \<and>
      get_api_entry_legacy h env req now = (Html out_of_range_html, DB env)"
    unfolding assms(1-3) by (rule api_entry_out_of_range)
  from both show "get_api_entry h env req now = (Html out_of_range_html, DB env)" ..
  from both show "get_api_entry_legacy h env req now = (Html out_of_range_html, DB env)" ..
next
  assume "minDate \<le> date \<and> date \<le> maxDate"
  then have "validateDateRange date minDate maxDate"
    by (simp add: validateDateRange_le)
  then have both: "get_api_entry h env req now = (Html (renderEntries h entries), db') \<and>
      get_api_entry_legacy h env req now = (Html (renderEntries h entries), db')"
    using assms(4) unfolding assms(1-3) by (rule api_entry_in_range)
  from both show "get_api_entry h env req now = (Html (renderEntries h entries), db')" ..
  from both show "get_api_entry_legacy h env req now = (Html (renderEntries h entries), db')" ..
  from assms(4) show "statements db' = statements (DB env) @ [date]"
    by (auto simp: fetchEntriesForDate_eq)
qed

theorem api_entry_warning_or_fragment_witness:
  "get_api_entry sample_host sample_env (sample_request (Some (js ''2099-01-01''))) sample_now =
     (Html out_of_range_html, sample_db) \<and>
   get_api_entry_legacy sample_host sample_env (sample_request (Some (js ''2099-01-01'')))
       sample_now =
     (Html out_of_range_html, sample_db) \<and>
   get_api_entry sample_host sample_env (sample_request (Some (js ''2026-05-31''))) sample_now =
     (Html (renderEntries sample_host [sample_morning, sample_noon]),
      sample_db\<lparr>statements := [js ''2026-05-31'']\<rparr>) \<and>
   get_api_entry_legacy sample_host sample_env (sample_request (Some (js ''2026-05-31'')))
       sample_now =
     (Html (renderEntries sample_host [sample_morning, sample_noon]),
      sample_db\<lparr>statements := [js ''2026-05-31'']\<rparr>)"
proof -
  have far: "resolveDate (query_date (sample_request (Some (js ''2099-01-01''))))
      (formatJstDate sample_host sample_now) = js ''2099-01-01''"
    by (simp add: sample_request_def sample_maxDate sample_resolve_2099)
  have near: "resolveDate (query_date (sample_request (Some (js ''2026-05-31''))))
      (formatJstDate sample_host sample_now) = js ''2026-05-31''"
    by (simp add: sample_request_def sample_maxDate sample_resolve_0531)
  have db: "DB sample_env = sample_db"
    by (simp add: sample_env_def)
  have fetched: "fetchEntriesForDate (DB sample_env) (js ''2026-05-31'') =
      ([sample_morning, sample_noon], sample_db\<lparr>statements := [js ''2026-05-31'']\<rparr>)"
    unfolding db by (rule sample_fetch)
  have out: "\<not> (earliest sample_env \<le> js ''2099-01-01'' \<and>
      js ''2099-01-01'' \<le> formatJstDate sample_host sample_now)"
    unfolding sample_minDate sample_maxDate by (rule sample_out_of_range)
  have inside: "earliest sample_env \<le> js ''2026-05-31'' \<and>
      js ''2026-05-31'' \<le> formatJstDate sample_host sample_now"
    unfolding sample_minDate sample_maxDate by (rule sample_in_range)
  have a: "get_api_entry sample_host sample_env (sample_request (Some (js ''2099-01-01'')))
        sample_now = (Html out_of_range_html, DB sample_env) \<and>
      get_api_entry_legacy sample_host sample_env (sample_request (Some (js ''2099-01-01'')))
        sample_now = (Html out_of_range_html, DB sample_env)"
    using out
      api_entry_warning_or_fragment
        [OF refl refl far [symmetric] prod.collapse [symmetric]]
    by blast
  have b: "get_api_entry sample_host sample_env (sample_request (Some (js ''2026-05-31'')))
        sample_now =
        (Html (renderEntries sample_host [sample_morning, sample_noon]),
         sample_db\<lparr>statements := [js ''2026-05-31'']\<rparr>) \<and>
      get_api_entry_legacy sample_host sample_env (sample_request (Some (js ''2026-05-31'')))
        sample_now =
        (Html (renderEntries sample_host [sample_morning, sample_noon]),
         sample_db\<lparr>statements := [js ''2026-05-31'']\<rparr>)"
    using inside
      api_entry_warning_or_fragment [OF refl refl near [symmetric] fetched]
    by blast
  from a b show ?thesis
    unfolding db by blast
qed

text \<open>
  Claim C4. The entry handlers of the two route sets return the same response, and
  leave the same database, for every environment, request and time.
\<close>

theorem api_entry_handlers_agree:
  "get_api_entry h env req now = get_api_entry_legacy h env req now"
  by (simp add: get_api_entry_def get_api_entry_legacy_def renderEntriesPartial_eq Let_def)

theorem api_entry_handlers_agree_witness:
  "get_api_entry sample_host sample_env (sample_request None) sample_now =
     get_api_entry_legacy sample_host sample_env (sample_request None) sample_now \<and>
   get_api_entry sample_host sample_env (sample_request (Some (js ''2026-05-31''))) sample_now =
     get_api_entry_legacy sample_host sample_env (sample_request (Some (js ''2026-05-31'')))
       sample_now"
  using api_entry_handlers_agree [of sample_host sample_env "sample_request None" sample_now]
    api_entry_handlers_agree
      [of sample_host sample_env "sample_request (Some (js ''2026-05-31''))" sample_now]
  by (rule conjI)

lemma length_page_template: "length page_template = 7"
  by (simp add: page_template_def)

lemma html_seven_pieces:
  "html [p0, p1, p2, p3, p4, p5, p6] [v0, v1, v2, v3, v4, v5] =
     p0 @ interp v0 @ p1 @ interp v1 @ p2 @ interp v2 @ p3 @ interp v3 @ p4 @ interp v4 @
     p5 @ interp v5 @ p6"
  by simp

lemma list_of_seven:
  "length xs = 7 \<Longrightarrow> xs = [xs ! 0, xs ! 1, xs ! 2, xs ! 3, xs ! 4, xs ! 5, xs ! 6]"
  by (rule nth_equalityI) (auto simp: nth_Cons' less_Suc_eq eval_nat_numeral)

lemma renderPage_layout:
  "renderPage h d es mn mx =
     page_template ! 0 @ escape d @ page_template ! 1 @ escape mn @
     page_template ! 2 @ escape mx @ page_template ! 3 @ escape mn @
     page_template ! 4 @ escape mx @ page_template ! 5 @ renderEntries h es @
     page_template ! 6"
proof -
  have "html page_template [Str d, Str mn, Str mx, Str mn, Str mx, Escaped (renderEntries h es)] =
      html [page_template ! 0, page_template ! 1, page_template ! 2, page_template ! 3,
            page_template ! 4, page_template ! 5, page_template ! 6]
        [Str d, Str mn, Str mx, Str mn, Str mx, Escaped (renderEntries h es)]"
    using list_of_seven [OF length_page_template] by simp
  then show ?thesis
    unfolding renderPage_def html_seven_pieces by simp
qed

lemma page_template_opens:
  "\<exists>rest. page_template ! 0 = line [] @ line ''  <!doctype html>'' @ rest"
  unfolding page_template_def nth_Cons_0 by (rule exI) (rule refl)

lemma seventh: "xs = [a, b, c, d, e, f, g] \<Longrightarrow> xs ! 6 = g"
  by simp

lemma ends_with_self: "\<exists>front. t = front @ (t :: 'a list)"
  by (rule exI [of _ "[]"]) simp

lemma ends_with_step: "\<exists>front. x = front @ t \<Longrightarrow> \<exists>front. a @ x = front @ (t :: 'a list)"
  by (metis append_assoc)

lemma page_template_closes:
  \<open>\<exists>front. page_template ! 6 = front @ line ''    </body>'' @ line ''  </html>''\<close>
  unfolding page_template_def [THEN seventh]
  by (rule ends_with_self | rule ends_with_step)+

lemma escape_sample_dates:
  "escape (js ''2099-01-01'') = js ''2099-01-01''"
  "escape (js ''2026-05-31'') = js ''2026-05-31''"
  "escape (js ''2025-12-25'') = js ''2025-12-25''"
  "escape (js ''2026-06-01'') = js ''2026-06-01''"
  by (simp_all add: escape_def escape_unit_def js_def)

text \<open>
  Claim C7. Both full-page handlers resolve the requested date against \<open>maxDate\<close>
  (the query parameter for \<^verbatim>\<open>/\<close>, the path parameter for \<^verbatim>\<open>/date/:date\<close>). In range,
  the page is rendered from the rows fetched for that date, by the one statement that
  is run; out of range, it is rendered from the empty list and the database is left as
  it was. In both cases the response is the rendered page: the seven literal pieces of
  the page template, in order, around the escaped date, the escaped bounds (twice) and
  the list view of the entries. The first piece opens with the document type and the
  last closes the body and the document.
\<close>

theorem full_page_fetches_only_in_range:
  assumes "minDate = earliest env"
    and "maxDate = formatJstDate h now"
    and "qd = resolveDate (query_date req) maxDate"
    and "pd = resolveDate (param_date req) maxDate"
  shows "(minDate \<le> qd \<and> qd \<le> maxDate \<longrightarrow>
            get_root h env req now =
              (Html (renderPage h qd (select_by_date (trend_entries (DB env)) qd) minDate maxDate),
               (DB env)\<lparr>statements := statements (DB env) @ [qd]\<rparr>)) \<and>
         (\<not> (minDate \<le> qd \<and> qd \<le> maxDate) \<longrightarrow>
            get_root h env req now = (Html (renderPage h qd [] minDate maxDate), DB env)) \<and>
         (minDate \<le> pd \<and> pd \<le> maxDate \<longrightarrow>
            get_date h env req now =
              (Html (renderPage h pd (select_by_date (trend_entries (DB env)) pd) minDate maxDate),
               (DB env)\<lparr>statements := statements (DB env) @ [pd]\<rparr>)) \<and>
         (\<not> (minDate \<le> pd \<and> pd \<le> maxDate) \<longrightarrow>
            get_date h env req now = (Html (renderPage h pd [] minDate maxDate), DB env)) \<and>
         renderPage h d es mn mx =
           page_template ! 0 @ escape d @ page_template ! 1 @ escape mn @
           page_template ! 2 @ escape mx @ page_template ! 3 @ escape mn @
           page_template ! 4 @ escape mx @ page_template ! 5 @ renderEntries h es @
           page_template ! 6 \<and>
         length page_template = 7 \<and>
         (\<exists>rest. page_template ! 0 = line [] @ line ''  <!doctype html>'' @ rest) \<and>
         (\<exists>front. page_template ! 6 = front @ line ''    </body>'' @ line ''  </html>'')"
proof -
  have handlers:
    "(minDate \<le> qd \<and> qd \<le> maxDate \<longrightarrow>
        get_root h env req now =
          (Html (renderPage h qd (select_by_date (trend_entries (DB env)) qd) minDate maxDate),
           (DB env)\<lparr>statements := statements (DB env) @ [qd]\<rparr>)) \<and>
     (\<not> (minDate \<le> qd \<and> qd \<le> maxDate) \<longrightarrow>
        get_root h env req now = (Html (renderPage h qd [] minDate maxDate), DB env)) \<and>
     (minDate \<le> pd \<and> pd \<le> maxDate \<longrightarrow>
        get_date h env req now =
          (Html (renderPage h pd (select_by_date (trend_entries (DB env)) pd) minDate maxDate),
           (DB env)\<lparr>statements := statements (DB env) @ [pd]\<rparr>)) \<and>
     (\<not> (minDate \<le> pd \<and> pd \<le> maxDate) \<longrightarrow>
        get_date h env req now = (Html (renderPage h pd [] minDate maxDate), DB env))"
    unfolding assms
    by (simp add: get_root_def get_date_def Let_def fetchEntriesForDate_eq
        validateDateRange_le [symmetric])
  show ?thesis
    using handlers renderPage_layout [of h d es mn mx] length_page_template
      page_template_opens page_template_closes
    by blast
qed

theorem full_page_fetches_only_in_range_witness:
  "get_root sample_host sample_env (sample_request (Some (js ''2026-05-31''))) sample_now =
     (Html (renderPage sample_host (js ''2026-05-31'') [sample_morning, sample_noon]
              (js ''2025-12-25'') (js ''2026-06-01'')),
      sample_db\<lparr>statements := [js ''2026-05-31'']\<rparr>) \<and>
   get_date sample_host sample_env (sample_request (Some (js ''2026-05-31''))) sample_now =
     (Html (renderPage sample_host (js ''2026-05-31'') [sample_morning, sample_noon]
              (js ''2025-12-25'') (js ''2026-06-01'')),
      sample_db\<lparr>statements := [js ''2026-05-31'']\<rparr>) \<and>
   get_root sample_host sample_env (sample_request (Some (js ''2099-01-01''))) sample_now =
     (Html (renderPage sample_host (js ''2099-01-01'') [] (js ''2025-12-25'') (js ''2026-06-01'')),
      sample_db) \<and>
   get_date sample_host sample_env (sample_request (Some (js ''2099-01-01''))) sample_now =
     (Html (renderPage sample_host (js ''2099-01-01'') [] (js ''2025-12-25'') (js ''2026-06-01'')),
      sample_db) \<and>
   renderPage sample_host (js ''2026-05-31'') [sample_morning, sample_noon]
       (js ''2025-12-25'') (js ''2026-06-01'') =
     page_template ! 0 @ js ''2026-05-31'' @ page_template ! 1 @ js ''2025-12-25'' @
     page_template ! 2 @ js ''2026-06-01'' @ page_template ! 3 @ js ''2025-12-25'' @
     page_template ! 4 @ js ''2026-06-01'' @ page_template ! 5 @
     (renderEntryHtml sample_host sample_morning @ renderEntryHtml sample_host sample_noon) @
     page_template ! 6 \<and>
   renderPage sample_host (js ''2099-01-01'') [] (js ''2025-12-25'') (js ''2026-06-01'') =
     page_template ! 0 @ js ''2099-01-01'' @ page_template ! 1 @ js ''2025-12-25'' @
     page_template ! 2 @ js ''2026-06-01'' @ page_template ! 3 @ js ''2025-12-25'' @
     page_template ! 4 @ js ''2026-06-01'' @ page_template ! 5 @ no_data_html @
     page_template ! 6"
proof -
  have mn: "js ''2025-12-25'' = earliest sample_env"
    by (simp add: sample_minDate)
  have mx: "js ''2026-06-01'' = formatJstDate sample_host sample_now"
    by (simp add: sample_maxDate)
  have near: "js ''2026-05-31'' =
      resolveDate (query_date (sample_request (Some (js ''2026-05-31'')))) (js ''2026-06-01'')"
    "js ''2026-05-31'' =
      resolveDate (param_date (sample_request (Some (js ''2026-05-31'')))) (js ''2026-06-01'')"
    by (simp_all add: sample_request_def sample_resolve_0531)
  have far: "js ''2099-01-01'' =
      resolveDate (query_date (sample_request (Some (js ''2099-01-01'')))) (js ''2026-06-01'')"
    "js ''2099-01-01'' =
      resolveDate (param_date (sample_request (Some (js ''2099-01-01'')))) (js ''2026-06-01'')"
    by (simp_all add: sample_request_def sample_resolve_2099)
  have db: "DB sample_env = sample_db"
    by (simp add: sample_env_def)
  have rows: "select_by_date (trend_entries sample_db) (js ''2026-05-31'') =
      [sample_morning, sample_noon]"
    by (simp add: sample_db_def sample_select)
  have log: "sample_db\<lparr>statements := statements sample_db @ [js ''2026-05-31'']\<rparr> =
      sample_db\<lparr>statements := [js ''2026-05-31'']\<rparr>"
    by (simp add: sample_db_def)
  have two: "renderEntries sample_host [sample_morning, sample_noon] =
      renderEntryHtml sample_host sample_morning @ renderEntryHtml sample_host sample_noon"
    by (simp add: renderEntries_def)
  have none: "renderEntries sample_host [] = no_data_html"
    by (simp add: renderEntries_def)
  note inside = full_page_fetches_only_in_range
    [OF mn mx near, where d = "js ''2026-05-31''"
      and es = "[sample_morning, sample_noon]" and mn = "js ''2025-12-25''"
      and mx = "js ''2026-06-01''"]
  note outside = full_page_fetches_only_in_range
    [OF mn mx far, where d = "js ''2099-01-01''"
      and es = "[]" and mn = "js ''2025-12-25''" and mx = "js ''2026-06-01''"]
  show ?thesis
    using sample_in_range sample_out_of_range inside outside
    unfolding db rows log two none escape_sample_dates by blast
qed

text \<open>
  Claim C8. The metadata handler answers with the object of the three keys
  \<^verbatim>\<open>minDate\<close>, \<^verbatim>\<open>maxDate\<close> and \<^verbatim>\<open>defaultDate\<close>: the configured earliest date or the
  default literal, the first ten code units of the ISO form of the instant nine hours
  after the clock reading, and the query parameter resolved against that date. Without
  a query parameter and without a configured earliest date these are \<^verbatim>\<open>2025-12-25\<close>,
  the date of the shifted instant, and that date again.
\<close>

theorem api_meta_object:
  "get_api_meta h env req now =
     Json [(js ''minDate'',
            case EARLIEST_DATE env of None \<Rightarrow> js ''2025-12-25'' | Some v \<Rightarrow> v),
           (js ''maxDate'', take 10 (toISOString h (now + 32400000))),
           (js ''defaultDate'',
            resolveDate (query_date req) (take 10 (toISOString h (now + 32400000))))] \<and>
   (EARLIEST_DATE env = None \<and> query_date req = None \<longrightarrow>
      get_api_meta h env req now =
        Json [(js ''minDate'', js ''2025-12-25''),
              (js ''maxDate'', take 10 (toISOString h (now + 32400000))),
              (js ''defaultDate'', take 10 (toISOString h (now + 32400000)))])"
  by (cases "EARLIEST_DATE env")
    (simp_all add: get_api_meta_def earliest_def DEFAULT_EARLIEST_DATE_def formatJstDate_def
      resolveDate_def Let_def)

theorem api_meta_object_witness:
  "get_api_meta sample_host sample_env (sample_request None) sample_now =
     Json [(js ''minDate'', js ''2025-12-25''), (js ''maxDate'', js ''2026-06-01''),
           (js ''defaultDate'', js ''2026-06-01'')]"
proof -
  have e: "EARLIEST_DATE sample_env = None \<and> query_date (sample_request None) = None"
    by (simp add: sample_env_def sample_request_def)
  have m: "take 10 (toISOString sample_host (sample_now + 32400000)) = js ''2026-06-01''"
    using sample_maxDate by (simp add: formatJstDate_def)
  show ?thesis
    using e api_meta_object [of sample_host sample_env "sample_request None" sample_now]
    unfolding m by blast
qed

end
